theory Spec2Isabelle
  imports Complex_Main "HOL-Library.AList"
begin

section \<open>Python values and dictionaries\<close>

text \<open>
  The client of \<^verbatim>\<open>pyasana/client.py\<close> moves dynamically typed values around: option
  values, query parameters and decoded JSON bodies. They are modelled by one datatype.
  A float is idealised as an exact rational (the non-finite floats are not option values
  of the model; the one the code creates itself, \<^verbatim>\<open>float('inf')\<close>, is the counter
  \<open>Unbounded\<close> below). A dict is its list of items in insertion order; a well-formed
  dict has distinct keys, and \<open>map_of\<close> reads it.
\<close>

datatype pyval =
    PyNone
  | PyBool bool
  | PyInt int
  | PyFloat rat
  | PyStr string
  | PyList "pyval list"
  | PyDict "(string \<times> pyval) list"

type_synonym dict = "(string \<times> pyval) list"

text \<open>\<^verbatim>\<open>result.update(obj)\<close>: every item of \<open>obj\<close>, in order, is stored in \<open>result\<close>.\<close>

definition dict_update :: "dict \<Rightarrow> dict \<Rightarrow> dict" where
  "dict_update result obj = fold (\<lambda>(k, v). AList.update k v) obj result"

text \<open>
  \<^verbatim>\<open>
  def _merge(*objects):
      result = {}
      [result.update(obj) for obj in objects]
      return result
  \<close>
\<close>

definition merge :: "dict list \<Rightarrow> dict" where
  "merge objects = foldl dict_update [] objects"

section \<open>Errors, responses and the transport\<close>

text \<open>
  The transport session (\<^verbatim>\<open>requests.Session\<close>) is a collaborator outside
  \<^verbatim>\<open>client.py\<close>. Of a response the client reads the status code and the decoded body;
  \<open>json\<close> is \<open>None\<close> when \<^verbatim>\<open>response.json()\<close> raises because the body is not JSON.
  The field \<open>retry_after\<close> holds the seconds that the response reports to the class
  \<^verbatim>\<open>RateLimitEnforcedError\<close> (see below).
\<close>

record response =
  status_code :: int
  json :: "pyval option"
  retry_after :: rat

text \<open>
  Modelled from the spec: the module \<^verbatim>\<open>error\<close> (the classes \<^verbatim>\<open>AsanaError\<close>,
  \<^verbatim>\<open>RetryableAsanaError\<close>, \<^verbatim>\<open>RateLimitEnforcedError\<close> and their siblings) is missing.
  An error class is known by what the client asks of it: whether it is a subclass of
  \<^verbatim>\<open>RetryableAsanaError\<close> (the column "retryable" of the specification's table) and
  whether it is \<^verbatim>\<open>RateLimitEnforcedError\<close>. Constructing an error from a response
  succeeds, and the \<^verbatim>\<open>retry_after\<close> of a rate-limit error is the number of seconds
  "extracted from the response".
\<close>

datatype error_class =
  ErrorClass (class_name: string) (is_retryable: bool) (is_rate_limit: bool)

datatype error =
    AsanaError error_class response
  | TransportError
  | TypeError
  | KeyError
  | ValueError
  | IndexError
  | AttributeError
  | NameError
  | RuntimeError
  | StopIteration

type_synonym status_map = "int \<rightharpoonup> error_class"

text \<open>
  Modelled from the spec: the contents of \<^verbatim>\<open>STATUS_MAP\<close>, which the code fills by
  reflection over the missing module \<^verbatim>\<open>error\<close>. The functions below take the table
  as the parameter \<open>sm\<close>; \<open>STATUS_MAP_spec\<close> is the table of the specification's section
  on error handling, used where a theorem is run on an example.
\<close>

definition STATUS_MAP_spec :: status_map where
  "STATUS_MAP_spec = map_of
     [(400, ErrorClass ''InvalidRequest'' False False),
      (401, ErrorClass ''NoAuthorization'' False False),
      (403, ErrorClass ''Forbidden'' False False),
      (404, ErrorClass ''NotFound'' False False),
      (409, ErrorClass ''InvalidRequest'' False False),
      (412, ErrorClass ''PreconditionFailed'' False False),
      (429, ErrorClass ''RateLimitEnforced'' True True),
      (500, ErrorClass ''ServerError'' True False),
      (502, ErrorClass ''ServerError'' True False),
      (503, ErrorClass ''ServerError'' True False),
      (504, ErrorClass ''ServerError'' True False)]"

text \<open>
  One call of a session method is answered by a response or by an exception of the
  transport. The world holds the answers still to come, in order, and records what the
  client did: the calls it made and the seconds it slept. When no answer is left the
  model stops with the result \<open>None\<close>: the call is still in flight.
\<close>

datatype answer = Answer response | Broken

record call =
  c_method :: string
  c_url :: pyval
  c_auth :: pyval
  c_kwargs :: dict

record world =
  pending :: "answer list"
  calls :: "call list"
  slept :: "rat list"

type_synonym 'a outcome = "(error + 'a) option"

section \<open>Operations on Python values\<close>

definition as_int :: "pyval \<Rightarrow> int option" where
  "as_int v = (case v of PyBool b \<Rightarrow> Some (if b then 1 else 0) | PyInt i \<Rightarrow> Some i
               | _ \<Rightarrow> None)"

definition as_num :: "pyval \<Rightarrow> rat option" where
  "as_num v = (case v of PyBool b \<Rightarrow> Some (if b then 1 else 0) | PyInt i \<Rightarrow> Some (of_int i)
               | PyFloat r \<Rightarrow> Some r | _ \<Rightarrow> None)"

text \<open>\<^verbatim>\<open>v == True\<close> and \<^verbatim>\<open>v == False\<close>: a bool is an int, so \<open>1\<close> and \<open>1.0\<close> equal \<open>True\<close>.\<close>

definition py_eq_True :: "pyval \<Rightarrow> bool" where
  "py_eq_True v = (as_num v = Some 1)"

definition py_eq_False :: "pyval \<Rightarrow> bool" where
  "py_eq_False v = (as_num v = Some 0)"

definition truthy :: "pyval \<Rightarrow> bool" where
  "truthy v = (case v of PyNone \<Rightarrow> False | PyBool b \<Rightarrow> b | PyInt i \<Rightarrow> i \<noteq> 0
               | PyFloat r \<Rightarrow> r \<noteq> 0 | PyStr s \<Rightarrow> s \<noteq> [] | PyList xs \<Rightarrow> xs \<noteq> []
               | PyDict d \<Rightarrow> d \<noteq> [])"

text \<open>\<^verbatim>\<open>a + b\<close>: numbers add, strings and lists concatenate, anything else is a TypeError.\<close>

definition py_add :: "pyval \<Rightarrow> pyval \<Rightarrow> error + pyval" where
  "py_add a b =
     (case (as_int a, as_int b) of
        (Some i, Some j) \<Rightarrow> Inr (PyInt (i + j))
      | _ \<Rightarrow>
        (case (as_num a, as_num b) of
           (Some x, Some y) \<Rightarrow> Inr (PyFloat (x + y))
         | _ \<Rightarrow>
           (case (a, b) of
              (PyStr s, PyStr t) \<Rightarrow> Inr (PyStr (s @ t))
            | (PyList xs, PyList ys) \<Rightarrow> Inr (PyList (xs @ ys))
            | _ \<Rightarrow> Inl TypeError)))"

text \<open>\<^verbatim>\<open>a * b\<close>: numbers multiply, an int repeats a string or a list.\<close>

definition py_mul :: "pyval \<Rightarrow> pyval \<Rightarrow> error + pyval" where
  "py_mul a b =
     (case (as_int a, as_int b) of
        (Some i, Some j) \<Rightarrow> Inr (PyInt (i * j))
      | _ \<Rightarrow>
        (case (as_num a, as_num b) of
           (Some x, Some y) \<Rightarrow> Inr (PyFloat (x * y))
         | _ \<Rightarrow>
           (case (as_int a, b) of
              (Some i, PyStr s) \<Rightarrow> Inr (PyStr (concat (replicate (nat i) s)))
            | (Some i, PyList xs) \<Rightarrow> Inr (PyList (concat (replicate (nat i) xs)))
            | _ \<Rightarrow>
              (case (a, as_int b) of
                 (PyStr s, Some j) \<Rightarrow> Inr (PyStr (concat (replicate (nat j) s)))
               | (PyList xs, Some j) \<Rightarrow> Inr (PyList (concat (replicate (nat j) xs)))
               | _ \<Rightarrow> Inl TypeError))))"

text \<open>
  \<^verbatim>\<open>time.sleep(v)\<close> returns after \<open>v\<close> seconds; a negative length is a ValueError and
  a value that is no number a TypeError. (The platform's upper bound on the length is
  not modelled.)
\<close>

definition py_sleep :: "pyval \<Rightarrow> error + rat" where
  "py_sleep v = (case as_num v of None \<Rightarrow> Inl TypeError
                 | Some s \<Rightarrow> if s < 0 then Inl ValueError else Inr s)"

text \<open>\<^verbatim>\<open>d[key]\<close> on a dict known to be one (an option set).\<close>

definition lookup :: "dict \<Rightarrow> string \<Rightarrow> error + pyval" where
  "lookup d key = (case map_of d key of None \<Rightarrow> Inl KeyError | Some v \<Rightarrow> Inr v)"

text \<open>\<^verbatim>\<open>v[key]\<close> with a string key, on any value.\<close>

definition getitem :: "pyval \<Rightarrow> string \<Rightarrow> error + pyval" where
  "getitem v key = (case v of PyDict d \<Rightarrow> lookup d key | _ \<Rightarrow> Inl TypeError)"

text \<open>\<^verbatim>\<open>v.get(key, None)\<close>: only a dict has the method.\<close>

definition py_get :: "pyval \<Rightarrow> string \<Rightarrow> error + pyval" where
  "py_get v key = (case v of PyDict d \<Rightarrow> Inr (case map_of d key of None \<Rightarrow> PyNone | Some x \<Rightarrow> x)
                   | _ \<Rightarrow> Inl AttributeError)"

text \<open>\<^verbatim>\<open>json.dumps\<close> of a bool.\<close>

definition dumps_bool :: "bool \<Rightarrow> string" where
  "dumps_bool b = (if b then ''true'' else ''false'')"

text \<open>
  A call \<^verbatim>\<open>f(a, b, **options)\<close> fails with a TypeError when \<open>options\<close> has a key
  that names one of the parameters already bound.
\<close>

definition bind_kwargs :: "string list \<Rightarrow> dict \<Rightarrow> bool" where
  "bind_kwargs names options = list_all (\<lambda>n. map_of options n = None) names"

section \<open>The client: option layering\<close>

record client =
  auth :: pyval
  options :: dict

definition DEFAULT_LIMIT :: int where
  "DEFAULT_LIMIT = 100"

definition DEFAULTS :: dict where
  "DEFAULTS =
     [(''base_url'', PyStr ''https://app.asana.com/api/1.0''),
      (''limit'', PyInt DEFAULT_LIMIT),
      (''poll_interval'', PyInt 5),
      (''retries'', PyInt 5),
      (''retry_delay'', PyFloat 1),
      (''retry_backoff'', PyFloat 2),
      (''full_payload'', PyBool False),
      (''iterator_type'', PyStr ''pages'')]"

text \<open>\<^verbatim>\<open>Client.__init__\<close>: the options are the defaults overridden by the caller's.\<close>

definition Client :: "pyval \<Rightarrow> dict \<Rightarrow> client" where
  "Client a opts = \<lparr>auth = a, options = merge [DEFAULTS, opts]\<rparr>"

definition merge_options :: "client \<Rightarrow> dict list \<Rightarrow> dict" where
  "merge_options self objects = merge (options self # objects)"

text \<open>
  \<^verbatim>\<open>
  def _select_options(self, options, keys):
      options = self._merge_options(options)
      return { key: options[key] for key in keys if key in options }
  \<close>
\<close>

definition select_options :: "client \<Rightarrow> dict \<Rightarrow> string list \<Rightarrow> dict" where
  "select_options self opts keys =
     (let merged = merge_options self [opts]
      in List.map_filter (\<lambda>key. map_option (Pair key) (map_of merged key)) keys)"

definition parse_query_options :: "client \<Rightarrow> dict \<Rightarrow> dict" where
  "parse_query_options self opts = select_options self opts [''limit'', ''offset'', ''sync'']"

text \<open>\<^verbatim>\<open>','.join(v)\<close>: every element has to be a string.\<close>

fun py_join :: "pyval list \<Rightarrow> error + string" where
  "py_join [] = Inr []"
| "py_join [PyStr s] = Inr s"
| "py_join (PyStr s # rest) =
     (case py_join rest of Inl e \<Rightarrow> Inl e | Inr t \<Rightarrow> Inr (s @ '','' @ t))"
| "py_join (_ # rest) = Inl TypeError"

text \<open>The loop of \<^verbatim>\<open>_parse_api_options\<close> that builds the query-string form.\<close>

fun query_api_options :: "dict \<Rightarrow> error + dict" where
  "query_api_options [] = Inr []"
| "query_api_options ((key, v) # rest) =
     (case (case v of PyList xs \<Rightarrow> map_sum id PyStr (py_join xs) | _ \<Rightarrow> Inr v) of
        Inl e \<Rightarrow> Inl e
      | Inr v' \<Rightarrow>
        (case query_api_options rest of
           Inl e \<Rightarrow> Inl e
         | Inr rest' \<Rightarrow> Inr ((''opt_'' @ key, v') # rest')))"

definition parse_api_options :: "client \<Rightarrow> dict \<Rightarrow> bool \<Rightarrow> error + dict" where
  "parse_api_options self opts query_string =
     (let api_options = select_options self opts [''pretty'', ''fields'', ''expand'']
      in if query_string then query_api_options api_options else Inr api_options)"

text \<open>
  \<^verbatim>\<open>
  for key in params:
      if isinstance(params[key], bool):
          params[key] = json.dumps(params[key])
  \<close>
  On a dict every bool value is replaced by its JSON literal. On a list the keys are the
  elements, used as indices into the list while it changes; \<open>n\<close> counts the elements
  still to visit.
\<close>

definition dumps_value :: "pyval \<Rightarrow> pyval" where
  "dumps_value v = (case v of PyBool b \<Rightarrow> PyStr (dumps_bool b) | _ \<Rightarrow> v)"

definition list_index :: "pyval list \<Rightarrow> pyval \<Rightarrow> error + nat" where
  "list_index xs key =
     (case as_int key of
        None \<Rightarrow> Inl TypeError
      | Some i \<Rightarrow>
        (let n = int (length xs); j = (if i < 0 then n + i else i)
         in if 0 \<le> j \<and> j < n then Inr (nat j) else Inl IndexError))"

fun dumps_list :: "nat \<Rightarrow> pyval list \<Rightarrow> error + pyval list" where
  "dumps_list 0 xs = Inr xs"
| "dumps_list (Suc n) xs =
     (if length xs \<le> n then Inr xs
      else (case list_index xs (xs ! (length xs - Suc n)) of
              Inl e \<Rightarrow> Inl e
            | Inr i \<Rightarrow> dumps_list n (xs[i := dumps_value (xs ! i)])))"

definition dumps_params :: "pyval \<Rightarrow> error + pyval" where
  "dumps_params params =
     (case params of
        PyDict d \<Rightarrow> Inr (PyDict (map (\<lambda>(key, v). (key, dumps_value v)) d))
      | PyList xs \<Rightarrow> map_sum id PyList (dumps_list (length xs) xs)
      | PyStr s \<Rightarrow> if s = [] then Inr params else Inl TypeError
      | _ \<Rightarrow> Inl TypeError)"

definition parse_request_options :: "client \<Rightarrow> dict \<Rightarrow> error + dict" where
  "parse_request_options self opts =
     (let request_options = select_options self opts [''headers'', ''params'', ''data'']
      in case map_of request_options ''params'' of
           None \<Rightarrow> Inr request_options
         | Some params \<Rightarrow>
           (case dumps_params params of
              Inl e \<Rightarrow> Inl e
            | Inr params' \<Rightarrow> Inr (AList.update ''params'' params' request_options)))"

section \<open>The request executor\<close>

text \<open>
  The retry counter is the value of the option \<^verbatim>\<open>retries\<close>, or \<^verbatim>\<open>float('inf')\<close>
  when that value equals \<^verbatim>\<open>True\<close>:
  \<^verbatim>\<open>retries = float('inf') if options['retries'] == True else options['retries']\<close>
\<close>

datatype counter = Unbounded | Counter pyval

definition initial_retries :: "pyval \<Rightarrow> counter" where
  "initial_retries v = (if py_eq_True v then Unbounded else Counter v)"

text \<open>\<^verbatim>\<open>retries > 0\<close>; comparing a value that is no number with \<open>0\<close> is a TypeError.\<close>

definition positive :: "counter \<Rightarrow> error + bool" where
  "positive c = (case c of Unbounded \<Rightarrow> Inr True
                 | Counter v \<Rightarrow> (case as_num v of None \<Rightarrow> Inl TypeError | Some x \<Rightarrow> Inr (0 < x)))"

text \<open>\<^verbatim>\<open>retries -= 1\<close>; infinity minus one is infinity.\<close>

definition decrement :: "counter \<Rightarrow> error + counter" where
  "decrement c = (case c of Unbounded \<Rightarrow> Inr Unbounded
                  | Counter v \<Rightarrow> map_sum id Counter (py_add v (PyInt (- 1))))"

text \<open>What a successful response returns: the decoded body or its member \<^verbatim>\<open>data\<close>.\<close>

definition payload :: "dict \<Rightarrow> response \<Rightarrow> error + pyval" where
  "payload opts r =
     (case lookup opts ''full_payload'' of
        Inl e \<Rightarrow> Inl e
      | Inr fp \<Rightarrow>
        (case json r of
           None \<Rightarrow> Inl ValueError
         | Some body \<Rightarrow> if truthy fp then Inr body else getitem body ''data''))"

definition finish :: "error + pyval \<Rightarrow> answer list \<Rightarrow> call list \<Rightarrow> rat list \<Rightarrow> pyval outcome \<times> world" where
  "finish r rest cs sl = (Some r, \<lparr>pending = rest, calls = cs, slept = sl\<rparr>)"

text \<open>
  The \<^verbatim>\<open>while True\<close> loop of \<^verbatim>\<open>Client.request\<close>. Each round makes one call of
  the session method and takes the next answer of the transport; with no answer left
  the call is made and does not return.
  \<^verbatim>\<open>
  while True:
      try:
          response = getattr(self.session, method)(url, auth=self.auth, **request_options)
          if response.status_code in STATUS_MAP:
              raise STATUS_MAP[response.status_code](response)
          else:
              if options['full_payload']:
                  return response.json()
              else:
                  return response.json()['data']
      except error.RetryableAsanaError as e:
          if retries > 0:
              retries -= 1
              if isinstance(e, error.RateLimitEnforcedError):
                  time.sleep(e.retry_after)
              else:
                  time.sleep(retry_delay)
                  retry_delay = retry_delay * options['retry_backoff']
          else:
              raise e
  \<close>
\<close>

fun request_loop ::
  "status_map \<Rightarrow> call \<Rightarrow> dict \<Rightarrow> counter \<Rightarrow> pyval \<Rightarrow> answer list \<Rightarrow> call list \<Rightarrow> rat list
     \<Rightarrow> pyval outcome \<times> world" where
  "request_loop sm c opts retries retry_delay [] cs sl =
     (None, \<lparr>pending = [], calls = cs @ [c], slept = sl\<rparr>)"
| "request_loop sm c opts retries retry_delay (Broken # rest) cs sl =
     finish (Inl TransportError) rest (cs @ [c]) sl"
| "request_loop sm c opts retries retry_delay (Answer r # rest) cs sl =
     (case sm (status_code r) of
        None \<Rightarrow> finish (payload opts r) rest (cs @ [c]) sl
      | Some K \<Rightarrow>
        if \<not> is_retryable K then finish (Inl (AsanaError K r)) rest (cs @ [c]) sl
        else
          (case positive retries of
             Inl e \<Rightarrow> finish (Inl e) rest (cs @ [c]) sl
           | Inr False \<Rightarrow> finish (Inl (AsanaError K r)) rest (cs @ [c]) sl
           | Inr True \<Rightarrow>
             (case decrement retries of
                Inl e \<Rightarrow> finish (Inl e) rest (cs @ [c]) sl
              | Inr retries' \<Rightarrow>
                if is_rate_limit K then
                  (case py_sleep (PyFloat (retry_after r)) of
                     Inl e \<Rightarrow> finish (Inl e) rest (cs @ [c]) sl
                   | Inr s \<Rightarrow>
                     request_loop sm c opts retries' retry_delay rest (cs @ [c]) (sl @ [s]))
                else
                  (case py_sleep retry_delay of
                     Inl e \<Rightarrow> finish (Inl e) rest (cs @ [c]) sl
                   | Inr s \<Rightarrow>
                     (case lookup opts ''retry_backoff'' of
                        Inl e \<Rightarrow> finish (Inl e) rest (cs @ [c]) (sl @ [s])
                      | Inr backoff \<Rightarrow>
                        (case py_mul retry_delay backoff of
                           Inl e \<Rightarrow> finish (Inl e) rest (cs @ [c]) (sl @ [s])
                         | Inr retry_delay' \<Rightarrow>
                           request_loop sm c opts retries' retry_delay' rest (cs @ [c])
                             (sl @ [s])))))))"

text \<open>
  \<^verbatim>\<open>
  def request(self, method, path, **options):
      options = self._merge_options(options)
      url = options['base_url'] + path
      retries = float('inf') if options['retries'] == True else options['retries']
      retry_delay = options['retry_delay']
      request_options = self._parse_request_options(options)
      while True: ...
  \<close>
  \<open>request_setup\<close> is the part before the loop: it fails, or gives the call that every
  round repeats, the resolved options, the retry counter and the first delay.
\<close>

definition request_setup ::
  "client \<Rightarrow> string \<Rightarrow> pyval \<Rightarrow> dict \<Rightarrow> error + (call \<times> dict \<times> counter \<times> pyval)" where
  "request_setup self method path kwargs =
     (if \<not> bind_kwargs [''self'', ''method'', ''path''] kwargs then Inl TypeError
      else
        (let opts = merge_options self [kwargs] in
         case lookup opts ''base_url'' of
           Inl e \<Rightarrow> Inl e
         | Inr base_url \<Rightarrow>
           (case py_add base_url path of
              Inl e \<Rightarrow> Inl e
            | Inr url \<Rightarrow>
              (case lookup opts ''retries'' of
                 Inl e \<Rightarrow> Inl e
               | Inr rv \<Rightarrow>
                 (case lookup opts ''retry_delay'' of
                    Inl e \<Rightarrow> Inl e
                  | Inr retry_delay \<Rightarrow>
                    (case parse_request_options self opts of
                       Inl e \<Rightarrow> Inl e
                     | Inr request_options \<Rightarrow>
                       Inr (\<lparr>c_method = method, c_url = url, c_auth = auth self,
                             c_kwargs = request_options\<rparr>,
                            opts, initial_retries rv, retry_delay)))))))"

definition request ::
  "status_map \<Rightarrow> client \<Rightarrow> string \<Rightarrow> pyval \<Rightarrow> dict \<Rightarrow> world \<Rightarrow> pyval outcome \<times> world" where
  "request sm self method path kwargs w =
     (case request_setup self method path kwargs of
        Inl e \<Rightarrow> (Some (Inl e), w)
      | Inr (c, opts, retries, retry_delay) \<Rightarrow>
        request_loop sm c opts retries retry_delay (pending w) (calls w) (slept w))"

section \<open>The verb \<^verbatim>\<open>get\<close>\<close>

text \<open>
  \<^verbatim>\<open>
  def get(self, path, query, **options):
      api_options = self._parse_api_options(options, query_string=True)
      query_options = self._parse_query_options(options)
      query = _merge(query_options, api_options, query)
      return self.request('get', path, params=query, **options)
  \<close>
  The last call names \<^verbatim>\<open>params\<close> twice when the options have that key: a TypeError.
\<close>

definition get ::
  "status_map \<Rightarrow> client \<Rightarrow> pyval \<Rightarrow> dict \<Rightarrow> dict \<Rightarrow> world \<Rightarrow> pyval outcome \<times> world" where
  "get sm self path query kwargs w =
     (if \<not> bind_kwargs [''self'', ''path'', ''query''] kwargs then (Some (Inl TypeError), w)
      else
        (case parse_api_options self kwargs True of
           Inl e \<Rightarrow> (Some (Inl e), w)
         | Inr api_options \<Rightarrow>
           (let query_options = parse_query_options self kwargs;
                query' = merge [query_options, api_options, query]
            in if map_of kwargs ''params'' \<noteq> None then (Some (Inl TypeError), w)
               else request sm self ''get'' path ((''params'', PyDict query') # kwargs) w)))"

section \<open>The page iterator\<close>

text \<open>
  \<^verbatim>\<open>
  class _PageIterator:
      def __init__(self, client, path, query, options):
          self.client = client
          self.path = path
          self.query = query
          self.options = _merge(options, { 'full_payload': True })
          self.next_page = False
  \<close>
\<close>

record page_iterator =
  it_client :: client
  it_path :: pyval
  it_query :: dict
  it_options :: dict
  next_page :: pyval

definition PageIterator :: "client \<Rightarrow> pyval \<Rightarrow> dict \<Rightarrow> dict \<Rightarrow> page_iterator" where
  "PageIterator c path query opts =
     \<lparr>it_client = c, it_path = path, it_query = query,
      it_options = merge [opts, [(''full_payload'', PyBool True)]],
      next_page = PyBool False\<rparr>"

text \<open>
  What \<^verbatim>\<open>__next__\<close> does with the result of \<^verbatim>\<open>get\<close>:
  \<^verbatim>\<open>
  self.next_page = result.get('next_page', None)
  return result['data']
  \<close>
\<close>

definition store_page ::
  "page_iterator \<Rightarrow> pyval outcome \<times> world \<Rightarrow> pyval outcome \<times> page_iterator \<times> world" where
  "store_page it rw =
     (case rw of
        (None, w) \<Rightarrow> (None, it, w)
      | (Some (Inl e), w) \<Rightarrow> (Some (Inl e), it, w)
      | (Some (Inr result), w) \<Rightarrow>
        (case py_get result ''next_page'' of
           Inl e \<Rightarrow> (Some (Inl e), it, w)
         | Inr np \<Rightarrow>
           (let it' = it\<lparr>next_page := np\<rparr>
            in case getitem result ''data'' of
                 Inl e \<Rightarrow> (Some (Inl e), it', w)
               | Inr d \<Rightarrow> (Some (Inr d), it', w))))"

text \<open>
  \<^verbatim>\<open>
  def __next__(self):
      if self.next_page != None:
          if self.next_page == False:
              result = self.client.get(self.path, self.query, **self.options)
          else:
              self.options.pop('offset', None)
              result = self.client.get(self.next_page['path'], {}, **self.options)
          self.next_page = result.get('next_page', None)
          return result['data']
      else:
          raise StopIteration
  \<close>
  \<open>page_request\<close> is the inner \<^verbatim>\<open>if\<close>: it gives the iterator as the branch leaves
  it and the outcome of the call of \<^verbatim>\<open>get\<close> (or the error of evaluating its argument).
\<close>

definition page_request ::
  "status_map \<Rightarrow> page_iterator \<Rightarrow> world \<Rightarrow> page_iterator \<times> pyval outcome \<times> world" where
  "page_request sm it w =
     (if py_eq_False (next_page it) then
        (it, get sm (it_client it) (it_path it) (it_query it) (it_options it) w)
      else
        (let it1 = it\<lparr>it_options := AList.delete ''offset'' (it_options it)\<rparr>
         in case getitem (next_page it1) ''path'' of
              Inl e \<Rightarrow> (it1, Some (Inl e), w)
            | Inr p \<Rightarrow> (it1, get sm (it_client it1) p [] (it_options it1) w)))"

definition page_next ::
  "status_map \<Rightarrow> page_iterator \<Rightarrow> world \<Rightarrow> pyval outcome \<times> page_iterator \<times> world" where
  "page_next sm it w =
     (if next_page it \<noteq> PyNone then
        (case page_request sm it w of (it1, rw) \<Rightarrow> store_page it1 rw)
      else (Some (Inl StopIteration), it, w))"

definition get_page_iterator :: "client \<Rightarrow> pyval \<Rightarrow> dict \<Rightarrow> dict \<Rightarrow> error + page_iterator" where
  "get_page_iterator self path query kwargs =
     (if bind_kwargs [''self'', ''path'', ''query''] kwargs
      then Inr (PageIterator self path query kwargs) else Inl TypeError)"

section \<open>The item iterator\<close>

text \<open>
  \<^verbatim>\<open>
  def _get_item_iterator(self, path, query, **options):
      for page in self._get_page_iterator(path, query, **options):
          for item in page:
              yield item
      raise StopIteration
  \<close>
  A generator: calling the function binds the arguments and runs nothing (\<open>Created\<close>);
  each step runs the body up to the next \<^verbatim>\<open>yield\<close>, where the page iterator and the
  rest of the current page are kept (\<open>Suspended\<close>). The last line raises StopIteration
  inside the generator. Since Python 3.7 (PEP 479) the interpreter turns that into a
  RuntimeError; before, it ended the generator like a return. The flag \<open>pep479\<close> says
  which interpreter runs the code.
\<close>

datatype item_iterator =
    Created client pyval dict dict
  | Suspended page_iterator "pyval list"
  | Finished

definition get_item_iterator :: "client \<Rightarrow> pyval \<Rightarrow> dict \<Rightarrow> dict \<Rightarrow> error + item_iterator" where
  "get_item_iterator self path query kwargs =
     (if bind_kwargs [''self'', ''path'', ''query''] kwargs
      then Inr (Created self path query kwargs) else Inl TypeError)"

text \<open>\<^verbatim>\<open>for item in page\<close>: the elements of a list, the keys of a dict, the characters of a string.\<close>

definition py_iter :: "pyval \<Rightarrow> error + pyval list" where
  "py_iter v = (case v of PyList xs \<Rightarrow> Inr xs
                | PyDict d \<Rightarrow> Inr (map (\<lambda>(key, _). PyStr key) d)
                | PyStr s \<Rightarrow> Inr (map (\<lambda>ch. PyStr [ch]) s)
                | _ \<Rightarrow> Inl TypeError)"

definition end_of_generator :: "bool \<Rightarrow> error" where
  "end_of_generator pep479 = (if pep479 then RuntimeError else StopIteration)"

text \<open>
  The outer loop, from the point where it asks the page iterator for a page. An empty
  page sends the loop to the next page. A page that came back has used up an answer of
  the transport (\<open>page_next_consumes\<close> below), which is what the recursion descends
  on; the \<open>else\<close> of that test is never reached.
\<close>

function pull ::
  "bool \<Rightarrow> status_map \<Rightarrow> page_iterator \<Rightarrow> world \<Rightarrow> pyval outcome \<times> item_iterator \<times> world" where
  "pull pep479 sm it w =
     (case page_next sm it w of
        (None, it', w') \<Rightarrow> (None, Suspended it' [], w')
      | (Some (Inl e), it', w') \<Rightarrow>
        (case e of
           StopIteration \<Rightarrow> (Some (Inl (end_of_generator pep479)), Finished, w')
         | _ \<Rightarrow> (Some (Inl e), Finished, w'))
      | (Some (Inr page), it', w') \<Rightarrow>
        (case py_iter page of
           Inl e \<Rightarrow> (Some (Inl e), Finished, w')
         | Inr [] \<Rightarrow>
           if length (pending w') < length (pending w) then pull pep479 sm it' w'
           else (None, Suspended it' [], w')
         | Inr (item # items) \<Rightarrow> (Some (Inr item), Suspended it' items, w')))"
  by pat_completeness auto
termination
  by (relation "measure (\<lambda>(pep479, sm, it, w). length (pending w))") auto

declare pull.simps [simp del]

definition item_next ::
  "bool \<Rightarrow> status_map \<Rightarrow> item_iterator \<Rightarrow> world \<Rightarrow> pyval outcome \<times> item_iterator \<times> world" where
  "item_next pep479 sm g w =
     (case g of
        Created self path query kwargs \<Rightarrow>
          (case get_page_iterator self path query kwargs of
             Inl e \<Rightarrow> (Some (Inl e), Finished, w)
           | Inr it \<Rightarrow> pull pep479 sm it w)
      | Suspended it (item # items) \<Rightarrow> (Some (Inr item), Suspended it items, w)
      | Suspended it [] \<Rightarrow> pull pep479 sm it w
      | Finished \<Rightarrow> (Some (Inl StopIteration), Finished, w))"

section \<open>Collections\<close>

text \<open>
  \<^verbatim>\<open>
  def get_collection(self, path, query, **options):
      options = self._merge_options(options)
      if options['iterator_type'] == 'pages':
          return self._get_page_iterator(path, query, **options)
      if options['iterator_type'] == 'items':
          return self._get_item_iterator(path, query, **options)
      if options['iterator_type'] == None:
          return self.get(path, query, **options)
      raise Error('Unknown value for "iterator_type" option: ' + str(options['iterator_type']))
  \<close>
  No name \<^verbatim>\<open>Error\<close> is bound in the module, so evaluating the last line raises a
  NameError before anything is constructed.
\<close>

datatype collection = Pages page_iterator | Items item_iterator | Direct pyval

definition returned :: "('a \<Rightarrow> 'b) \<Rightarrow> error + 'a \<Rightarrow> 'b outcome" where
  "returned f r = Some (map_sum id f r)"

definition get_collection ::
  "status_map \<Rightarrow> client \<Rightarrow> pyval \<Rightarrow> dict \<Rightarrow> dict \<Rightarrow> world \<Rightarrow> collection outcome \<times> world" where
  "get_collection sm self path query kwargs w =
     (if \<not> bind_kwargs [''self'', ''path'', ''query''] kwargs then (Some (Inl TypeError), w)
      else
        (let opts = merge_options self [kwargs] in
         case lookup opts ''iterator_type'' of
           Inl e \<Rightarrow> (Some (Inl e), w)
         | Inr t \<Rightarrow>
           if t = PyStr ''pages'' then (returned Pages (get_page_iterator self path query opts), w)
           else if t = PyStr ''items'' then
             (returned Items (get_item_iterator self path query opts), w)
           else if t = PyNone then
             (case get sm self path query opts w of
                (r, w') \<Rightarrow> (map_option (map_sum id Direct) r, w'))
           else (Some (Inl NameError), w)))"

section \<open>Vocabulary of the properties\<close>

text \<open>How \<^verbatim>\<open>STATUS_MAP\<close> classifies an answer of the transport.\<close>

definition classified :: "status_map \<Rightarrow> answer \<Rightarrow> error_class option" where
  "classified sm a = (case a of Answer r \<Rightarrow> sm (status_code r) | Broken \<Rightarrow> None)"

definition retryable_answer :: "status_map \<Rightarrow> answer \<Rightarrow> bool" where
  "retryable_answer sm a = (case classified sm a of Some K \<Rightarrow> is_retryable K | None \<Rightarrow> False)"

definition rate_limit_answer :: "status_map \<Rightarrow> answer \<Rightarrow> bool" where
  "rate_limit_answer sm a = (case classified sm a of Some K \<Rightarrow> is_rate_limit K | None \<Rightarrow> False)"

text \<open>The seconds that a rate-limit answer reports are a sleep length when not negative.\<close>

definition sound_retry_after :: "status_map \<Rightarrow> answer \<Rightarrow> bool" where
  "sound_retry_after sm a =
     (case a of Answer r \<Rightarrow> \<not> rate_limit_answer sm a \<or> 0 \<le> retry_after r | Broken \<Rightarrow> True)"

definition reported :: "answer \<Rightarrow> rat" where
  "reported a = (case a of Answer r \<Rightarrow> retry_after r | Broken \<Rightarrow> 0)"

text \<open>
  The retry budget covers \<open>n\<close> retries: the counter is unbounded, or a number that is
  still positive after \<open>n - 1\<close> decrements.
\<close>

definition covers :: "counter \<Rightarrow> nat \<Rightarrow> bool" where
  "covers c n =
     (case c of Unbounded \<Rightarrow> True
      | Counter v \<Rightarrow> (case as_num v of None \<Rightarrow> n = 0 | Some x \<Rightarrow> n = 0 \<or> of_nat n < x + 1))"

text \<open>
  The sleeps that the specification prescribes for a run of retryable answers, by
  position: a rate-limit answer waits what the server reports, any other the base delay
  times the backoff to the power of the number of such answers before it.
\<close>

definition spec_sleeps :: "status_map \<Rightarrow> rat \<Rightarrow> rat \<Rightarrow> answer list \<Rightarrow> rat list" where
  "spec_sleeps sm d b script =
     map (\<lambda>i. if rate_limit_answer sm (script ! i) then reported (script ! i)
              else d * b ^ length (filter (\<lambda>a. \<not> rate_limit_answer sm a) (take i script)))
       [0..<length script]"

text \<open>The same sleeps, by recursion along the run (the form the loop computes).\<close>

fun schedule :: "status_map \<Rightarrow> rat \<Rightarrow> rat \<Rightarrow> answer list \<Rightarrow> rat list" where
  "schedule sm d b [] = []"
| "schedule sm d b (a # rest) =
     (if rate_limit_answer sm a then reported a # schedule sm d b rest
      else d # schedule sm (d * b) b rest)"

text \<open>The counter \<open>rt'\<close> is \<open>rt\<close> after \<open>n\<close> decrements.\<close>

definition spent :: "counter \<Rightarrow> counter \<Rightarrow> nat \<Rightarrow> bool" where
  "spent rt rt' n =
     (case rt of Unbounded \<Rightarrow> rt' = Unbounded
      | Counter v \<Rightarrow> (case as_num v of None \<Rightarrow> n = 0 \<and> rt' = rt
                      | Some x \<Rightarrow> (\<exists>v'. rt' = Counter v' \<and> as_num v' = Some (x - of_nat n))))"

text \<open>What a caller sees who steps an iterator \<open>n\<close> times.\<close>

fun page_steps ::
  "nat \<Rightarrow> status_map \<Rightarrow> page_iterator \<Rightarrow> world \<Rightarrow> pyval outcome list \<times> page_iterator \<times> world" where
  "page_steps 0 sm it w = ([], it, w)"
| "page_steps (Suc n) sm it w =
     (case page_next sm it w of
        (r, it', w') \<Rightarrow> (case page_steps n sm it' w' of (rs, it'', w'') \<Rightarrow> (r # rs, it'', w'')))"

fun item_steps ::
  "nat \<Rightarrow> bool \<Rightarrow> status_map \<Rightarrow> item_iterator \<Rightarrow> world
     \<Rightarrow> pyval outcome list \<times> item_iterator \<times> world" where
  "item_steps 0 pep479 sm g w = ([], g, w)"
| "item_steps (Suc n) pep479 sm g w =
     (case item_next pep479 sm g w of
        (r, g', w') \<Rightarrow>
          (case item_steps n pep479 sm g' w' of (rs, g'', w'') \<Rightarrow> (r # rs, g'', w'')))"

section \<open>Example data\<close>

text \<open>Responses, a call and a world on which the theorems below are run.\<close>

definition r500 :: response where
  "r500 = \<lparr>status_code = 500, json = None, retry_after = 0\<rparr>"

definition r429 :: response where
  "r429 = \<lparr>status_code = 429, json = None, retry_after = 30\<rparr>"

definition tasks_call :: call where
  "tasks_call = \<lparr>c_method = ''get'', c_url = PyStr ''https://app.asana.com/api/1.0/tasks'',
                  c_auth = PyNone, c_kwargs = []\<rparr>"

definition fresh :: "answer list \<Rightarrow> world" where
  "fresh script = \<lparr>pending = script, calls = [], slept = []\<rparr>"


definition page1 :: response where
  "page1 = \<lparr>status_code = 200,
     json = Some (PyDict [(''data'', PyList [PyStr ''a'', PyStr ''b'']),
                          (''next_page'', PyDict [(''offset'', PyStr ''X''),
                                                  (''path'', PyStr ''/tasks?offset=X'')])]),
     retry_after = 0\<rparr>"

definition page2 :: response where
  "page2 = \<lparr>status_code = 200,
     json = Some (PyDict [(''data'', PyList [PyStr ''c'']), (''next_page'', PyNone)]),
     retry_after = 0\<rparr>"

definition items_client :: client where
  "items_client = Client PyNone [(''iterator_type'', PyStr ''items'')]"

definition tasks_client :: client where
  "tasks_client = Client PyNone []"

definition envelope2 :: pyval where
  "envelope2 = PyDict [(''data'', PyList [PyStr ''c'']), (''next_page'', PyNone)]"




section \<open>Dictionary lemmas\<close>

lemma map_of_dict_update:
  "distinct (map fst obj) \<Longrightarrow> map_of (dict_update result obj) = map_of result ++ map_of obj"
  unfolding dict_update_def
proof (induction obj arbitrary: result)
  case Nil
  show ?case by simp
next
  case (Cons item obj)
  obtain k v where item: "item = (k, v)" by (cases item)
  from Cons.prems item have k: "k \<notin> fst ` set obj" and d: "distinct (map fst obj)"
    by auto
  from k have none: "map_of obj k = None"
    by (simp add: map_of_eq_None_iff)
  have "map_of (fold (\<lambda>(k, v). AList.update k v) (item # obj) result) =
        map_of (fold (\<lambda>(k, v). AList.update k v) obj (AList.update k v result))"
    using item by simp
  also have "\<dots> = map_of (AList.update k v result) ++ map_of obj"
    using Cons.IH [OF d] .
  also have "\<dots> = (map_of result)(k \<mapsto> v) ++ map_of obj"
    by (simp add: update_conv')
  also have "\<dots> = map_of result ++ map_of (item # obj)"
    using none item by (auto simp: map_add_def fun_eq_iff split: option.splits)
  finally show ?case .
qed

lemma distinct_dict_update:
  "distinct (map fst result) \<Longrightarrow> distinct (map fst (dict_update result obj))"
  unfolding dict_update_def
  by (induction obj arbitrary: result) (auto simp: distinct_update)

lemma map_of_merge3:
  assumes "distinct (map fst a)" "distinct (map fst b)" "distinct (map fst c)"
  shows "map_of (merge [a, b, c]) = map_of a ++ map_of b ++ map_of c"
  using assms by (simp add: merge_def map_of_dict_update)

section \<open>Lemmas on the retry loop\<close>


lemma py_mul_num:
  "as_num a = Some x \<Longrightarrow> as_num b = Some y \<Longrightarrow> \<exists>v. py_mul a b = Inr v \<and> as_num v = Some (x * y)"
  by (cases a; cases b) (auto simp: py_mul_def as_num_def as_int_def)

lemma decrement_num:
  "as_num v = Some x \<Longrightarrow> \<exists>v'. decrement (Counter v) = Inr (Counter v') \<and> as_num v' = Some (x - 1)"
  by (cases v) (auto simp: decrement_def py_add_def as_num_def as_int_def)

lemma positive_num: "as_num v = Some x \<Longrightarrow> positive (Counter v) = Inr (0 < x)"
  by (simp add: positive_def)

lemma py_sleep_num: "as_num v = Some x \<Longrightarrow> 0 \<le> x \<Longrightarrow> py_sleep v = Inr x"
  by (simp add: py_sleep_def)

lemma spent_0: "spent rt rt 0"
  by (auto simp: spent_def split: counter.splits option.splits)

lemma loop_step:
  assumes "retryable_answer sm a" "sound_retry_after sm a" "covers rt (Suc n)"
    and "as_num dv = Some d" "0 \<le> d"
    and "lookup opts ''retry_backoff'' = Inr bv" "as_num bv = Some b"
  shows "\<exists>rt1 dv1.
     request_loop sm c opts rt dv (a # rest) cs sl =
       request_loop sm c opts rt1 dv1 rest (cs @ [c])
         (sl @ [if rate_limit_answer sm a then reported a else d]) \<and>
     as_num dv1 = Some (if rate_limit_answer sm a then d else d * b) \<and>
     covers rt1 n \<and> spent rt rt1 1"
proof -
  from assms(1) obtain r K where a: "a = Answer r" and K: "sm (status_code r) = Some K"
    and ret: "is_retryable K"
    by (auto simp: retryable_answer_def classified_def split: answer.splits option.splits)
  have rl: "rate_limit_answer sm a = is_rate_limit K"
    using a K by (simp add: rate_limit_answer_def classified_def)
  have pos: "positive rt = Inr True"
    using assms(3) by (auto simp: covers_def positive_def split: counter.splits option.splits)
  obtain rt1 where dec: "decrement rt = Inr rt1" and cov: "covers rt1 n" and sp: "spent rt rt1 1"
  proof (cases rt)
    case Unbounded
    then show ?thesis using that [of Unbounded]
      by (simp add: decrement_def covers_def spent_def)
  next
    case (Counter v)
    with assms(3) obtain x where x: "as_num v = Some x" "of_nat (Suc n) < x + 1"
      by (auto simp: covers_def split: option.splits)
    from decrement_num [OF x(1)] obtain v' where
      v': "decrement (Counter v) = Inr (Counter v')" "as_num v' = Some (x - 1)" by blast
    show ?thesis
      using that [of "Counter v'"] Counter v' x
      by (auto simp: covers_def spent_def)
  qed
  show ?thesis
  proof (cases "is_rate_limit K")
    case True
    then have "0 \<le> retry_after r"
      using assms(2) a rl by (simp add: sound_retry_after_def)
    then have sl: "py_sleep (PyFloat (retry_after r)) = Inr (retry_after r)"
      by (simp add: py_sleep_def as_num_def)
    show ?thesis
      using a K ret pos dec cov sp True sl rl assms(4)
      by (intro exI [of _ rt1] exI [of _ dv]) (simp add: reported_def)
  next
    case False
    from py_mul_num [OF assms(4) assms(7)] obtain dv1 where
      dv1: "py_mul dv bv = Inr dv1" "as_num dv1 = Some (d * b)" by blast
    have sl: "py_sleep dv = Inr d"
      using assms(4,5) by (rule py_sleep_num)
    show ?thesis
      using a K ret pos dec cov sp False sl rl dv1 assms(6)
      by (intro exI [of _ rt1] exI [of _ dv1]) simp
  qed
qed

lemma spent_Suc: "spent rt rt1 1 \<Longrightarrow> spent rt1 rt' n \<Longrightarrow> spent rt rt' (Suc n)"
  by (auto simp: spent_def algebra_simps split: counter.splits option.splits)

lemma loop_absorbs:
  assumes "list_all (retryable_answer sm) script" "list_all (sound_retry_after sm) script"
    and "covers rt (length script)" "as_num dv = Some d" "0 \<le> d"
    and "lookup opts ''retry_backoff'' = Inr bv" "as_num bv = Some b" "0 \<le> b"
  shows "\<exists>rt' dv'.
     request_loop sm c opts rt dv (script @ rest) cs sl =
       request_loop sm c opts rt' dv' rest (cs @ replicate (length script) c)
         (sl @ schedule sm d b script) \<and>
     as_num dv' = Some (d * b ^ length (filter (\<lambda>a. \<not> rate_limit_answer sm a) script)) \<and>
     spent rt rt' (length script)"
  using assms(1-5)
proof (induction script arbitrary: rt dv d cs sl)
  case Nil
  show ?case
    using Nil.prems(4) by (intro exI [of _ rt] exI [of _ dv]) (simp add: spent_0)
next
  case (Cons a script)
  let ?d1 = "if rate_limit_answer sm a then d else d * b"
  let ?s = "if rate_limit_answer sm a then reported a else d"
  from Cons.prems have a: "retryable_answer sm a" "sound_retry_after sm a"
    and rest: "list_all (retryable_answer sm) script" "list_all (sound_retry_after sm) script"
    and cov: "covers rt (Suc (length script))"
    by simp_all
  from loop_step [OF a cov Cons.prems(4,5) assms(6,7), of c "script @ rest" cs sl]
  obtain rt1 dv1 where
    step: "request_loop sm c opts rt dv (a # script @ rest) cs sl =
             request_loop sm c opts rt1 dv1 (script @ rest) (cs @ [c]) (sl @ [?s])"
    and dv1: "as_num dv1 = Some ?d1" and cov1: "covers rt1 (length script)"
    and sp1: "spent rt rt1 1"
    by blast
  have d1: "0 \<le> ?d1" using Cons.prems(5) assms(8) by simp
  from Cons.IH [OF rest cov1 dv1 d1, of "cs @ [c]" "sl @ [?s]"]
  obtain rt' dv' where
    run: "request_loop sm c opts rt1 dv1 (script @ rest) (cs @ [c]) (sl @ [?s]) =
            request_loop sm c opts rt' dv' rest ((cs @ [c]) @ replicate (length script) c)
              ((sl @ [?s]) @ schedule sm ?d1 b script)"
    and dv': "as_num dv' =
                Some (?d1 * b ^ length (filter (\<lambda>a. \<not> rate_limit_answer sm a) script))"
    and sp: "spent rt1 rt' (length script)"
    by blast
  have cs: "(cs @ [c]) @ replicate (length script) c = cs @ replicate (length (a # script)) c"
    by (simp add: replicate_append_same)
  have sl: "(sl @ [?s]) @ schedule sm ?d1 b script = sl @ schedule sm d b (a # script)"
    by simp
  have pw: "?d1 * b ^ length (filter (\<lambda>a. \<not> rate_limit_answer sm a) script) =
            d * b ^ length (filter (\<lambda>a. \<not> rate_limit_answer sm a) (a # script))"
    by simp
  show ?case
    apply (intro exI [of _ rt'] exI [of _ dv'] conjI)
    subgoal using step run cs sl by (simp only: append_Cons)
    subgoal using dv' pw by (simp only:)
    subgoal using spent_Suc [OF sp1 sp] by simp
    done
qed

lemma schedule_eq_spec_sleeps: "schedule sm d b script = spec_sleeps sm d b script"
proof (induction script arbitrary: d)
  case Nil
  show ?case by (simp add: spec_sleeps_def)
next
  case (Cons a script)
  have idx: "[0..<length (a # script)] = 0 # map Suc [0..<length script]"
    by (simp add: upt_conv_Cons map_Suc_upt del: upt_Suc)
  have "spec_sleeps sm d b (a # script) =
        (if rate_limit_answer sm a then reported a else d) #
        map (\<lambda>i. if rate_limit_answer sm (script ! i) then reported (script ! i)
              else d * b ^ length (filter (\<lambda>a. \<not> rate_limit_answer sm a) (a # take i script)))
          [0..<length script]"
    unfolding spec_sleeps_def idx by (simp add: comp_def)
  also have "\<dots> = schedule sm d b (a # script)"
    by (simp add: Cons.IH spec_sleeps_def power_commutes mult.assoc)
  finally show ?case by simp
qed

lemma request_setup_facts:
  "request_setup self method path kwargs = Inr (c, opts, rt, dv) \<Longrightarrow>
     opts = merge_options self [kwargs] \<and> lookup opts ''retry_delay'' = Inr dv \<and>
     (\<exists>rv. lookup opts ''retries'' = Inr rv \<and> rt = initial_retries rv)"
  by (auto simp: request_setup_def Let_def split: if_splits sum.splits)

lemma request_enters_loop:
  "request_setup self method path kwargs = Inr (c, opts, rt, dv) \<Longrightarrow>
     request sm self method path kwargs w =
       request_loop sm c opts rt dv (pending w) (calls w) (slept w)"
  by (simp add: request_def)

lemma request_absorbs:
  assumes "request_setup self method path kwargs = Inr (c, opts, rt, dv)"
    and "pending w = script @ rest"
    and "list_all (retryable_answer sm) script" "list_all (sound_retry_after sm) script"
    and "covers rt (length script)" "as_num dv = Some d" "0 \<le> d"
    and "lookup opts ''retry_backoff'' = Inr bv" "as_num bv = Some b" "0 \<le> b"
  shows "\<exists>rt' dv'.
     request sm self method path kwargs w =
       request_loop sm c opts rt' dv' rest (calls w @ replicate (length script) c)
         (slept w @ spec_sleeps sm d b script) \<and>
     as_num dv' = Some (d * b ^ length (filter (\<lambda>a. \<not> rate_limit_answer sm a) script)) \<and>
     spent rt rt' (length script)"
  using loop_absorbs [OF assms(3-10), of c rest "calls w" "slept w"]
    request_enters_loop [OF assms(1), of sm w] assms(2)
  by (simp add: schedule_eq_spec_sleeps)







lemmas eval_defs =
  request_setup_def Client_def bind_kwargs_def merge_options_def merge_def dict_update_def
  DEFAULTS_def DEFAULT_LIMIT_def lookup_def py_add_def py_mul_def as_int_def as_num_def
  parse_request_options_def select_options_def initial_retries_def
  py_eq_True_def STATUS_MAP_spec_def r500_def r429_def tasks_call_def fresh_def
  positive_def decrement_def py_sleep_def finish_def request_def payload_def getitem_def
  truthy_def retryable_answer_def rate_limit_answer_def classified_def sound_retry_after_def
  covers_def reported_def spec_sleeps_def

lemma retry_budget:
  assumes su: "request_setup self method path kwargs = Inr (c, opts, rt, dv)"
    and n: "lookup opts ''retries'' = Inr (PyInt n)" "0 \<le> n" "n \<noteq> 1"
    and script: "pending w = script @ Answer r # rest" "length script = nat n"
    and retry: "list_all (retryable_answer sm) script" "retryable_answer sm (Answer r)"
    and sound: "list_all (sound_retry_after sm) script"
    and delay: "as_num dv = Some d" "0 \<le> d"
    and backoff: "lookup opts ''retry_backoff'' = Inr bv" "as_num bv = Some b" "0 \<le> b"
  shows "\<exists>K. sm (status_code r) = Some K \<and>
           request sm self method path kwargs w =
             (Some (Inl (AsanaError K r)),
              \<lparr>pending = rest, calls = calls w @ replicate (nat n + 1) c,
               slept = slept w @ spec_sleeps sm d b script\<rparr>)"
proof -
  from request_setup_facts [OF su] n have rt: "rt = Counter (PyInt n)"
    by (auto simp: initial_retries_def py_eq_True_def as_num_def)
  have cov: "covers rt (length script)"
    using rt n(2) script(2) by (simp add: covers_def as_num_def)
  from request_absorbs [OF su script(1) retry(1) sound cov delay backoff]
  obtain rt' dv' where
    run: "request sm self method path kwargs w =
            request_loop sm c opts rt' dv' (Answer r # rest)
              (calls w @ replicate (length script) c) (slept w @ spec_sleeps sm d b script)"
    and sp: "spent rt rt' (length script)"
    by blast
  from sp rt n(2) script(2) obtain v' where v': "rt' = Counter v'" "as_num v' = Some 0"
    by (auto simp: spent_def as_num_def)
  from retry(2) obtain K where K: "sm (status_code r) = Some K" "is_retryable K"
    by (auto simp: retryable_answer_def classified_def split: option.splits)
  have "request_loop sm c opts rt' dv' (Answer r # rest)
          (calls w @ replicate (length script) c) (slept w @ spec_sleeps sm d b script) =
        (Some (Inl (AsanaError K r)),
         \<lparr>pending = rest, calls = calls w @ replicate (nat n + 1) c,
          slept = slept w @ spec_sleeps sm d b script\<rparr>)"
    using K v' script(2) by (simp add: positive_def finish_def replicate_append_same)
  with run K(1) show ?thesis by simp
qed

section \<open>Lemmas on the iterators\<close>

lemma exhausted_step:
  "next_page it = PyNone \<Longrightarrow> page_next sm it w = (Some (Inl StopIteration), it, w)"
  by (simp add: page_next_def)

lemma exhausted_steps:
  "next_page it = PyNone \<Longrightarrow>
     page_steps n sm it w = (replicate n (Some (Inl StopIteration)), it, w)"
  by (induction n) (simp_all add: exhausted_step)

lemma loop_consumes:
  "request_loop sm c opts rt dv script cs sl = (Some r, w') \<Longrightarrow>
     length (pending w') < length script"
proof (induction script arbitrary: rt dv cs sl)
  case Nil
  then show ?case by simp
next
  case (Cons a script)
  show ?case
  proof (cases a)
    case Broken
    with Cons.prems show ?thesis by (auto simp: finish_def)
  next
    case (Answer r')
    with Cons.prems show ?thesis
      by (auto simp: finish_def less_Suc_eq dest!: Cons.IH
          split: option.splits sum.splits bool.splits if_splits)
  qed
qed

lemma request_consumes:
  "request sm self method path kwargs w = (Some (Inr v), w') \<Longrightarrow>
     length (pending w') < length (pending w)"
  by (auto simp: request_def dest: loop_consumes split: sum.splits)

lemma get_consumes:
  "get sm self path query kwargs w = (Some (Inr v), w') \<Longrightarrow>
     length (pending w') < length (pending w)"
  by (auto simp: get_def Let_def dest: request_consumes split: if_splits sum.splits)

lemma page_next_consumes:
  "page_next sm it w = (Some (Inr page), it', w') \<Longrightarrow>
     length (pending w') < length (pending w)"
  by (auto simp: page_next_def page_request_def store_page_def Let_def dest: get_consumes
      split: if_splits sum.splits option.splits prod.splits)

lemma pull_exhausted:
  "next_page it = PyNone \<Longrightarrow>
     pull pep479 sm it w = (Some (Inl (end_of_generator pep479)), Finished, w)"
  by (subst pull.simps) (simp add: page_next_def)

lemma keys_dict_update:
  "fst ` set (dict_update result obj) = fst ` set result \<union> fst ` set obj"
  unfolding dict_update_def
proof (induction obj arbitrary: result)
  case Nil
  show ?case by simp
next
  case (Cons item obj)
  obtain k v where item: "item = (k, v)" by (cases item)
  have "fst ` set (fold (\<lambda>(k, v). AList.update k v) obj (AList.update k v result)) =
        fst ` set (AList.update k v result) \<union> fst ` set obj"
    by (rule Cons.IH)
  also have "\<dots> = ({k} \<union> fst ` set result) \<union> fst ` set obj"
    by (simp only: dom_update)
  finally show ?case using item by auto
qed

lemma bind_kwargs_merged:
  "bind_kwargs names (merge_options self [kwargs]) \<Longrightarrow> bind_kwargs names kwargs"
proof -
  have "fst ` set kwargs \<subseteq> fst ` set (merge_options self [kwargs])"
    by (simp add: merge_options_def merge_def keys_dict_update)
  then have "map_of (merge_options self [kwargs]) n = None \<Longrightarrow> map_of kwargs n = None" for n
    by (auto simp: map_of_eq_None_iff)
  then show "bind_kwargs names (merge_options self [kwargs]) \<Longrightarrow> bind_kwargs names kwargs"
    by (auto simp: bind_kwargs_def list_all_iff)
qed

lemma item_steps_add:
  "item_steps (m + n) pep479 sm g w =
     (case item_steps m pep479 sm g w of
        (rs, g', w') \<Rightarrow>
          (case item_steps n pep479 sm g' w' of (rs', g'', w'') \<Rightarrow> (rs @ rs', g'', w'')))"
  by (induction m arbitrary: g w) (simp_all split: prod.splits)

lemma items_of_page:
  "item_steps (length xs) pep479 sm (Suspended it xs) w =
     (map (\<lambda>x. Some (Inr x)) xs, Suspended it [], w)"
  by (induction xs) (simp_all add: item_next_def)

lemma pull_page:
  assumes "page_next sm it w = (Some (Inr (PyList xs)), it1, w1)"
  shows "pull pep479 sm it w =
           (case xs of [] \<Rightarrow> pull pep479 sm it1 w1
            | x # xs' \<Rightarrow> (Some (Inr x), Suspended it1 xs', w1))"
  using assms page_next_consumes [OF assms]
  by (subst pull.simps) (simp add: py_iter_def split: list.splits)

lemma suspended_run:
  assumes "page_steps (length pss) sm it w = (map (\<lambda>xs. Some (Inr (PyList xs))) pss, it', w')"
    and "next_page it' = PyNone"
  shows "item_steps (Suc (length (concat pss))) pep479 sm (Suspended it []) w =
           (map (\<lambda>x. Some (Inr x)) (concat pss) @ [Some (Inl (end_of_generator pep479))],
            Finished, w')"
  using assms
proof (induction pss arbitrary: it w)
  case Nil
  then show ?case by (simp add: item_next_def pull_exhausted)
next
  case (Cons xs pss)
  from Cons.prems(1) obtain it1 w1 where
    step: "page_next sm it w = (Some (Inr (PyList xs)), it1, w1)"
    and rest: "page_steps (length pss) sm it1 w1 =
                 (map (\<lambda>xs. Some (Inr (PyList xs))) pss, it', w')"
    by (auto split: prod.splits)
  note IH = Cons.IH [OF rest Cons.prems(2)]
  show ?case
  proof (cases xs)
    case Nil
    have "item_next pep479 sm (Suspended it []) w = item_next pep479 sm (Suspended it1 []) w1"
      using pull_page [OF step, of pep479] Nil by (simp add: item_next_def)
    then have "item_steps (Suc (length (concat pss))) pep479 sm (Suspended it []) w =
               item_steps (Suc (length (concat pss))) pep479 sm (Suspended it1 []) w1"
      by simp
    with IH Nil show ?thesis by simp
  next
    case (Cons x xs')
    have first: "item_next pep479 sm (Suspended it []) w = (Some (Inr x), Suspended it1 xs', w1)"
      using pull_page [OF step, of pep479] Cons by (simp add: item_next_def)
    have "item_steps (length xs' + Suc (length (concat pss))) pep479 sm (Suspended it1 xs') w1 =
            (map (\<lambda>x. Some (Inr x)) xs' @
               (map (\<lambda>x. Some (Inr x)) (concat pss) @ [Some (Inl (end_of_generator pep479))]),
             Finished, w')"
      by (simp only: item_steps_add items_of_page IH prod.case)
    then have "item_steps (Suc (length xs' + Suc (length (concat pss)))) pep479 sm
                 (Suspended it []) w =
            (Some (Inr x) # map (\<lambda>x. Some (Inr x)) xs' @
               (map (\<lambda>x. Some (Inr x)) (concat pss) @ [Some (Inl (end_of_generator pep479))]),
             Finished, w')"
      using first by simp
    then show ?thesis using Cons by (simp add: add.commute)
  qed
qed

lemma items_are_concatenated_pages:
  assumes "bind_kwargs [''self'', ''path'', ''query''] opts"
    and "page_steps (length pss) sm (PageIterator c path query opts) w =
           (map (\<lambda>xs. Some (Inr (PyList xs))) pss, it', w')"
    and "next_page it' = PyNone"
  shows "item_steps (Suc (length (concat pss))) pep479 sm (Created c path query opts) w =
           (map (\<lambda>x. Some (Inr x)) (concat pss) @ [Some (Inl (end_of_generator pep479))],
            Finished, w')"
proof -
  have "item_next pep479 sm (Created c path query opts) w =
        item_next pep479 sm (Suspended (PageIterator c path query opts) []) w"
    using assms(1) by (simp add: item_next_def get_page_iterator_def)
  then have "item_steps (Suc (length (concat pss))) pep479 sm (Created c path query opts) w =
             item_steps (Suc (length (concat pss))) pep479 sm
               (Suspended (PageIterator c path query opts) []) w"
    by simp
  with suspended_run [OF assms(2,3)] show ?thesis by simp
qed

section \<open>Option merging\<close>

text \<open>
  Claim C4. Merging is a shallow override in which the rightmost tier wins: for three
  tiers \<open>D\<close>, \<open>C\<close>, \<open>Q\<close> (dicts, so with distinct keys) and every key \<open>k\<close>, the merged
  dict maps \<open>k\<close> to \<open>Q[k]\<close> if \<open>Q\<close> has the key, else to \<open>C[k]\<close> if \<open>C\<close> has it, else to
  what \<open>D\<close> says; the value is the winning tier's value as it is, whatever it contains.
  This holds for \<^verbatim>\<open>_merge(D, C, Q)\<close> and for the two stages in which the client
  reaches it: \<^verbatim>\<open>_merge(D, C)\<close> at construction, \<^verbatim>\<open>_merge_options(Q)\<close> at the call.
\<close>

theorem option_merge_precedence:
  assumes "distinct (map fst D)" "distinct (map fst C)" "distinct (map fst Q)"
  shows "map_of (merge [D, C, Q]) k =
           (case map_of Q k of Some v \<Rightarrow> Some v
            | None \<Rightarrow> (case map_of C k of Some v \<Rightarrow> Some v | None \<Rightarrow> map_of D k)) \<and>
         map_of (merge_options \<lparr>auth = a, options = merge [D, C]\<rparr> [Q]) k =
           map_of (merge [D, C, Q]) k"
proof -
  have three: "map_of (merge [D, C, Q]) = map_of D ++ map_of C ++ map_of Q"
    using assms by (rule map_of_merge3)
  have "distinct (map fst (merge [D, C]))"
    by (simp add: merge_def distinct_dict_update)
  then have staged: "map_of (merge_options \<lparr>auth = a, options = merge [D, C]\<rparr> [Q]) =
                     map_of (merge [D, C]) ++ map_of Q"
    using assms(3) by (simp add: merge_options_def merge_def map_of_dict_update)
  have two: "map_of (merge [D, C]) = map_of D ++ map_of C"
    using assms(1,2) by (simp add: merge_def map_of_dict_update)
  show ?thesis
    by (simp add: three staged two map_add_def split: option.splits)
qed

theorem option_merge_precedence_witness:
  "distinct (map fst [(''limit'', PyInt 100), (''headers'', PyDict [(''a'', PyInt 1)])]) \<and>
   distinct (map fst [(''limit'', PyInt 50)]) \<and>
   distinct (map fst [(''headers'', PyDict [(''b'', PyInt 2)])]) \<and>
   map_of (merge [[(''limit'', PyInt 100), (''headers'', PyDict [(''a'', PyInt 1)])],
                  [(''limit'', PyInt 50)],
                  [(''headers'', PyDict [(''b'', PyInt 2)])]]) ''headers'' =
     Some (PyDict [(''b'', PyInt 2)])"
  using option_merge_precedence
    [of "[(''limit'', PyInt 100), (''headers'', PyDict [(''a'', PyInt 1)])]"
        "[(''limit'', PyInt 50)]" "[(''headers'', PyDict [(''b'', PyInt 2)])]" "''headers''"]
  by simp

section \<open>The retry budget\<close>

text \<open>
  Claim C1 (the code at \<^verbatim>\<open>retries=1\<close>). The claim asks for exactly two attempts and
  then the classified failure. The code compares the option with \<^verbatim>\<open>True\<close> by
  \<^verbatim>\<open>==\<close>, and \<^verbatim>\<open>1 == True\<close> holds in Python: the counter becomes infinity. Against
  three responses with status 500 the client makes a fourth call, having slept 1, 2 and
  4 seconds, and no failure has reached the caller. (For every other non-negative
  number of retries the claim holds: \<open>retry_budget\<close>.)
\<close>

theorem retries_one_never_exhausted:
  "request STATUS_MAP_spec (Client PyNone [(''retries'', PyInt 1)]) ''get'' (PyStr ''/tasks'') []
     (fresh [Answer r500, Answer r500, Answer r500]) =
   (None, \<lparr>pending = [], calls = replicate 4 tasks_call, slept = [1, 2, 4]\<rparr>)"
  by (simp add: eval_defs numeral_eq_Suc)



text \<open>
  The sentinel is the value \<^verbatim>\<open>True\<close>. A string is no sentinel: with
  \<^verbatim>\<open>retries='infinite'\<close> the first retryable error reaches \<^verbatim>\<open>retries > 0\<close>, which is a
  TypeError in Python 3.
\<close>

lemma retries_string_is_no_sentinel:
  "request STATUS_MAP_spec (Client PyNone [(''retries'', PyStr ''infinite'')]) ''get''
     (PyStr ''/tasks'') [] (fresh [Answer r500, Answer r500]) =
   (Some (Inl TypeError), \<lparr>pending = [Answer r500], calls = [tasks_call], slept = []\<rparr>)"
  by (simp add: eval_defs)

section \<open>Status codes outside the table\<close>




section \<open>Backoff and rate limits\<close>





section \<open>The page iterator: exhaustion and cursors\<close>

text \<open>
  Claim C7. When a step of a page iterator that is not exhausted fetches an envelope
  whose \<^verbatim>\<open>next_page\<close> is absent (no such key, or null), the step returns that
  envelope's \<^verbatim>\<open>data\<close> and leaves the iterator exhausted: every later step, however
  many, raises StopIteration and changes neither the iterator nor the world, so no
  request is made. A new iterator starts with \<^verbatim>\<open>next_page = False\<close>, which is not the
  exhausted state \<^verbatim>\<open>None\<close>.
\<close>

theorem exhaustion_is_absorbing:
  assumes "next_page it \<noteq> PyNone"
    and "page_request sm it w = (it1, Some (Inr envelope), w')"
    and "py_get envelope ''next_page'' = Inr PyNone"
  shows "page_next sm it w = (Some (getitem envelope ''data''), it1\<lparr>next_page := PyNone\<rparr>, w') \<and>
         (\<forall>n. page_steps n sm (it1\<lparr>next_page := PyNone\<rparr>) w' =
                (replicate n (Some (Inl StopIteration)), it1\<lparr>next_page := PyNone\<rparr>, w')) \<and>
         next_page (PageIterator c path query opts) \<noteq> PyNone"
proof (intro conjI allI)
  show "page_next sm it w = (Some (getitem envelope ''data''), it1\<lparr>next_page := PyNone\<rparr>, w')"
    using assms by (simp add: page_next_def store_page_def Let_def split: sum.splits)
  show "page_steps n sm (it1\<lparr>next_page := PyNone\<rparr>) w' =
          (replicate n (Some (Inl StopIteration)), it1\<lparr>next_page := PyNone\<rparr>, w')" for n
    by (rule exhausted_steps) simp
  show "next_page (PageIterator c path query opts) \<noteq> PyNone"
    by (simp add: PageIterator_def)
qed

theorem exhaustion_is_absorbing_witness:
  "next_page (PageIterator tasks_client (PyStr ''/tasks'') [] []) \<noteq> PyNone \<and>
   page_request STATUS_MAP_spec (PageIterator tasks_client (PyStr ''/tasks'') [] [])
       (fresh [Answer page2]) =
     (PageIterator tasks_client (PyStr ''/tasks'') [] [], Some (Inr envelope2),
      \<lparr>pending = [],
       calls = [\<lparr>c_method = ''get'', c_url = PyStr ''https://app.asana.com/api/1.0/tasks'',
                 c_auth = PyNone, c_kwargs = [(''params'', PyDict [(''limit'', PyInt 100)])]\<rparr>],
       slept = []\<rparr>) \<and>
   py_get envelope2 ''next_page'' = Inr PyNone \<and>
   fst (page_steps 3 STATUS_MAP_spec (PageIterator tasks_client (PyStr ''/tasks'') [] [])
          (fresh [Answer page2])) =
     [Some (Inr (PyList [PyStr ''c''])), Some (Inl StopIteration), Some (Inl StopIteration)]"
proof -
  let ?it = "PageIterator tasks_client (PyStr ''/tasks'') [] []"
  let ?w' = "\<lparr>pending = [],
       calls = [\<lparr>c_method = ''get'', c_url = PyStr ''https://app.asana.com/api/1.0/tasks'',
                 c_auth = PyNone, c_kwargs = [(''params'', PyDict [(''limit'', PyInt 100)])]\<rparr>],
       slept = []\<rparr>"
  have h1: "next_page ?it \<noteq> PyNone"
    by (simp add: PageIterator_def)
  have h2: "page_request STATUS_MAP_spec ?it (fresh [Answer page2]) =
              (?it, Some (Inr envelope2), ?w')"
    by code_simp
  have h3: "py_get envelope2 ''next_page'' = Inr PyNone"
    by (simp add: py_get_def envelope2_def)
  have d: "getitem envelope2 ''data'' = Inr (PyList [PyStr ''c''])"
    by (simp add: getitem_def lookup_def envelope2_def)
  from exhaustion_is_absorbing [OF h1 h2 h3]
  have step: "page_next STATUS_MAP_spec ?it (fresh [Answer page2]) =
                (Some (getitem envelope2 ''data''), ?it\<lparr>next_page := PyNone\<rparr>, ?w')"
    and rest: "page_steps 2 STATUS_MAP_spec (?it\<lparr>next_page := PyNone\<rparr>) ?w' =
                (replicate 2 (Some (Inl StopIteration)), ?it\<lparr>next_page := PyNone\<rparr>, ?w')"
    by blast+
  have rep: "replicate 2 (Some (Inl StopIteration) :: pyval outcome) =
               [Some (Inl StopIteration), Some (Inl StopIteration)]"
    by (simp add: numeral_2_eq_2)
  have "page_steps (Suc 2) STATUS_MAP_spec ?it (fresh [Answer page2]) =
          (case page_next STATUS_MAP_spec ?it (fresh [Answer page2]) of
             (r, it', w') \<Rightarrow>
               (case page_steps 2 STATUS_MAP_spec it' w' of (rs, it'', w'') \<Rightarrow> (r # rs, it'', w'')))"
    by (simp only: page_steps.simps)
  also have "\<dots> = ([Some (Inr (PyList [PyStr ''c''])), Some (Inl StopIteration),
                    Some (Inl StopIteration)], ?it\<lparr>next_page := PyNone\<rparr>, ?w')"
    by (simp only: step rest d rep prod.case)
  finally have "fst (page_steps 3 STATUS_MAP_spec ?it (fresh [Answer page2])) =
     [Some (Inr (PyList [PyStr ''c''])), Some (Inl StopIteration), Some (Inl StopIteration)]"
    by (simp add: eval_nat_numeral)
  with h1 h2 h3 show ?thesis by blast
qed



text \<open>
  What reaches the transport. \<^verbatim>\<open>get\<close> merges the client's own options below the
  options it is given, so the parameters of the call still have an \<^verbatim>\<open>offset\<close> when the
  client was constructed with one; an \<^verbatim>\<open>offset\<close> given to the call that made the
  iterator is gone once a cursor is followed.
\<close>

lemma offset_on_the_wire:
  "map c_kwargs (calls (snd (snd (page_steps 2 STATUS_MAP_spec
      (PageIterator tasks_client (PyStr ''/tasks'') []
         (merge_options tasks_client [[(''offset'', PyStr ''A'')]]))
      (fresh [Answer page1, Answer page2]))))) =
     [[(''params'', PyDict [(''limit'', PyInt 100), (''offset'', PyStr ''A'')])],
      [(''params'', PyDict [(''limit'', PyInt 100)])]] \<and>
   map c_kwargs (calls (snd (snd (page_steps 2 STATUS_MAP_spec
      (PageIterator (Client PyNone [(''offset'', PyStr ''A'')]) (PyStr ''/tasks'') []
         (merge_options (Client PyNone [(''offset'', PyStr ''A'')]) [[]]))
      (fresh [Answer page1, Answer page2]))))) =
     [[(''params'', PyDict [(''limit'', PyInt 100), (''offset'', PyStr ''A'')])],
      [(''params'', PyDict [(''limit'', PyInt 100), (''offset'', PyStr ''A'')])]]"
  by code_simp

section \<open>The item iterator: order and end\<close>

text \<open>
  Claim C9 (the code on a two-page collection). The pages \<open>[a, b]\<close> and \<open>[c]\<close> come out
  as \<open>a\<close>, \<open>b\<close>, \<open>c\<close>, in this order and with nothing added. The step after the last
  item reaches \<^verbatim>\<open>raise StopIteration\<close> in the body of the generator: on Python 3.7 and
  later the caller gets a RuntimeError there, not the end of the sequence; on an
  earlier interpreter the sequence ends. (For any collection that ends, the items are
  the pages in order and the last step is that one: \<open>items_are_concatenated_pages\<close>.)
\<close>

theorem item_iterator_end_of_sequence:
  "get_collection STATUS_MAP_spec items_client (PyStr ''/tasks'') [] []
     (fresh [Answer page1, Answer page2]) =
     (Some (Inr (Items (Created items_client (PyStr ''/tasks'') [] (options items_client)))),
      fresh [Answer page1, Answer page2]) \<and>
   fst (item_steps 4 True STATUS_MAP_spec
          (Created items_client (PyStr ''/tasks'') [] (options items_client))
          (fresh [Answer page1, Answer page2])) =
     [Some (Inr (PyStr ''a'')), Some (Inr (PyStr ''b'')), Some (Inr (PyStr ''c'')),
      Some (Inl RuntimeError)] \<and>
   fst (item_steps 4 False STATUS_MAP_spec
          (Created items_client (PyStr ''/tasks'') [] (options items_client))
          (fresh [Answer page1, Answer page2])) =
     [Some (Inr (PyStr ''a'')), Some (Inr (PyStr ''b'')), Some (Inr (PyStr ''c'')),
      Some (Inl StopIteration)]"
  by code_simp

section \<open>Dispatch on the iterator type\<close>

text \<open>
  Claim C10. When the call binds its arguments, \<^verbatim>\<open>get_collection\<close> looks at the resolved
  option \<^verbatim>\<open>iterator_type\<close> only: \<^verbatim>\<open>'pages'\<close> returns a page iterator over the resolved
  options, \<^verbatim>\<open>'items'\<close> an item iterator, \<^verbatim>\<open>None\<close> the result of a direct \<^verbatim>\<open>get\<close>;
  every other value ends in a NameError, which is no error class of the library.
\<close>

theorem get_collection_dispatch:
  assumes "bind_kwargs [''self'', ''path'', ''query''] (merge_options self [kwargs])"
    and "lookup (merge_options self [kwargs]) ''iterator_type'' = Inr t"
  shows "get_collection sm self path query kwargs w =
           (if t = PyStr ''pages'' then
              (Some (Inr (Pages (PageIterator self path query (merge_options self [kwargs])))), w)
            else if t = PyStr ''items'' then
              (Some (Inr (Items (Created self path query (merge_options self [kwargs])))), w)
            else if t = PyNone then
              (case get sm self path query (merge_options self [kwargs]) w of
                 (r, w') \<Rightarrow> (map_option (map_sum id Direct) r, w'))
            else (Some (Inl NameError), w)) \<and>
         (\<forall>K r. NameError \<noteq> AsanaError K r)"
  using assms bind_kwargs_merged [OF assms(1)]
  by (simp add: get_collection_def returned_def get_page_iterator_def get_item_iterator_def)

theorem get_collection_dispatch_witness:
  "bind_kwargs [''self'', ''path'', ''query'']
     (merge_options (Client PyNone [(''iterator_type'', PyStr ''bogus'')]) []) \<and>
   lookup (merge_options (Client PyNone [(''iterator_type'', PyStr ''bogus'')]) [])
     ''iterator_type'' = Inr (PyStr ''bogus'') \<and>
   get_collection STATUS_MAP_spec (Client PyNone [(''iterator_type'', PyStr ''bogus'')])
     (PyStr ''/tasks'') [] [] (fresh []) = (Some (Inl NameError), fresh [])"
proof -
  let ?c = "Client PyNone [(''iterator_type'', PyStr ''bogus'')]"
  have h1: "bind_kwargs [''self'', ''path'', ''query''] (merge_options ?c [[]])"
    by code_simp
  have h2: "lookup (merge_options ?c [[]]) ''iterator_type'' = Inr (PyStr ''bogus'')"
    by code_simp
  from get_collection_dispatch [OF h1 h2, of STATUS_MAP_spec "PyStr ''/tasks''" "[]" "fresh []"]
  have "get_collection STATUS_MAP_spec ?c (PyStr ''/tasks'') [] [] (fresh []) =
          (Some (Inl NameError), fresh [])"
    by simp
  with h1 h2 show ?thesis
    by (simp add: merge_options_def merge_def dict_update_def)
qed

end
